theory Spec2Isabelle
  imports Main "HOL-Library.Word" "HOL-Library.AList"
begin

unbundle bit_operations_syntax

section \<open>File classifier (pkg/detector/detector.go)\<close>

text \<open>
  \<^verbatim>\<open>type FileCategory string\<close> with its twelve constants, used as an enumeration:
  \<^verbatim>\<open>detectCategory\<close> returns nothing but these constants.
\<close>

datatype FileCategory =
    CategoryPNG | CategoryJPG | CategoryBMP | CategoryGIF | CategoryTIFF | CategoryWEBP
  | CategoryWAV | CategoryMP3 | CategoryFLAC | CategoryOGG | CategoryAU | CategoryUnknown

type_synonym byte = "8 word"

text \<open>
  \<^verbatim>\<open>type FileInfo struct\<close>. The fields \<^verbatim>\<open>Name\<close> and \<^verbatim>\<open>Category\<close> are written
  \<open>FName\<close> and \<open>FCategory\<close>, since \<^verbatim>\<open>Tool\<close> has fields of the same names.
\<close>

record FileInfo =
  Path :: string
  FName :: string
  Size :: int
  FCategory :: FileCategory
  MimeType :: string
  Extension :: string

definition IsImage :: "FileInfo \<Rightarrow> bool" where
  "IsImage f =
     (case FCategory f of
        CategoryPNG \<Rightarrow> True | CategoryJPG \<Rightarrow> True | CategoryBMP \<Rightarrow> True
      | CategoryGIF \<Rightarrow> True | CategoryTIFF \<Rightarrow> True | CategoryWEBP \<Rightarrow> True
      | _ \<Rightarrow> False)"

definition IsAudio :: "FileInfo \<Rightarrow> bool" where
  "IsAudio f =
     (case FCategory f of
        CategoryWAV \<Rightarrow> True | CategoryMP3 \<Rightarrow> True | CategoryFLAC \<Rightarrow> True
      | CategoryOGG \<Rightarrow> True | CategoryAU \<Rightarrow> True
      | _ \<Rightarrow> False)"

text \<open>
  The body of the block \<^verbatim>\<open>if len(header) >= 8 { ... }\<close> of \<^verbatim>\<open>detectCategory\<close>: the signature
  checks in the order of the source, \<open>None\<close> when control falls out of the block. It is
  only called with at least eight bytes, so every index below 8 is in range; the two RIFF
  checks read the indices 8 to 11 behind their own length test.
\<close>

definition magicBytes :: "byte list \<Rightarrow> FileCategory option" where
  "magicBytes header =
     (if header ! 0 = 0x89 \<and> header ! 1 = 0x50 \<and> header ! 2 = 0x4E \<and> header ! 3 = 0x47
        then Some CategoryPNG
      else if header ! 0 = 0xFF \<and> header ! 1 = 0xD8 \<and> header ! 2 = 0xFF
        then Some CategoryJPG
      else if header ! 0 = 0x42 \<and> header ! 1 = 0x4D
        then Some CategoryBMP
      else if header ! 0 = 0x47 \<and> header ! 1 = 0x49 \<and> header ! 2 = 0x46 \<and> header ! 3 = 0x38
        then Some CategoryGIF
      else if (header ! 0 = 0x49 \<and> header ! 1 = 0x49 \<and> header ! 2 = 0x2A \<and> header ! 3 = 0x00)
            \<or> (header ! 0 = 0x4D \<and> header ! 1 = 0x4D \<and> header ! 2 = 0x00 \<and> header ! 3 = 0x2A)
        then Some CategoryTIFF
      else if header ! 0 = 0x52 \<and> header ! 1 = 0x49 \<and> header ! 2 = 0x46 \<and> header ! 3 = 0x46
            \<and> 12 \<le> length header
            \<and> header ! 8 = 0x57 \<and> header ! 9 = 0x41 \<and> header ! 10 = 0x56 \<and> header ! 11 = 0x45
        then Some CategoryWAV
      else if header ! 0 = 0x52 \<and> header ! 1 = 0x49 \<and> header ! 2 = 0x46 \<and> header ! 3 = 0x46
            \<and> 12 \<le> length header
            \<and> header ! 8 = 0x57 \<and> header ! 9 = 0x45 \<and> header ! 10 = 0x42 \<and> header ! 11 = 0x50
        then Some CategoryWEBP
      else if header ! 0 = 0x66 \<and> header ! 1 = 0x4C \<and> header ! 2 = 0x61 \<and> header ! 3 = 0x43
        then Some CategoryFLAC
      else if header ! 0 = 0x4F \<and> header ! 1 = 0x67 \<and> header ! 2 = 0x67 \<and> header ! 3 = 0x53
        then Some CategoryOGG
      else if (header ! 0 = 0xFF \<and> (header ! 1) AND 0xE0 = 0xE0)
            \<or> (header ! 0 = 0x49 \<and> header ! 1 = 0x44 \<and> header ! 2 = 0x33)
        then Some CategoryMP3
      else if header ! 0 = 0x2E \<and> header ! 1 = 0x73 \<and> header ! 2 = 0x6E \<and> header ! 3 = 0x64
        then Some CategoryAU
      else None)"

text \<open>The \<^verbatim>\<open>switch ext\<close> of \<^verbatim>\<open>detectCategory\<close> and its final \<^verbatim>\<open>return CategoryUnknown\<close>.\<close>

definition extFallback :: "string \<Rightarrow> FileCategory" where
  "extFallback ext =
     (if ext = ''.png'' then CategoryPNG
      else if ext = ''.jpg'' \<or> ext = ''.jpeg'' \<or> ext = ''.jfif'' \<or> ext = ''.jpe'' then CategoryJPG
      else if ext = ''.bmp'' then CategoryBMP
      else if ext = ''.gif'' then CategoryGIF
      else if ext = ''.tiff'' \<or> ext = ''.tif'' then CategoryTIFF
      else if ext = ''.webp'' then CategoryWEBP
      else if ext = ''.wav'' then CategoryWAV
      else if ext = ''.mp3'' then CategoryMP3
      else if ext = ''.flac'' then CategoryFLAC
      else if ext = ''.ogg'' then CategoryOGG
      else if ext = ''.au'' then CategoryAU
      else CategoryUnknown)"

text \<open>
  \<^verbatim>\<open>func detectCategory(mime, ext string, header []byte) FileCategory\<close>. The header is the
  slice \<^verbatim>\<open>buf[:n]\<close> of \<^verbatim>\<open>Detect\<close>: the bytes one read of at most 512 bytes returned, so a
  file shorter than eight bytes arrives here with fewer than eight bytes.
\<close>

definition detectCategory :: "string \<Rightarrow> string \<Rightarrow> byte list \<Rightarrow> FileCategory" where
  "detectCategory mime ext header =
     (if 8 \<le> length header
      then (case magicBytes header of Some c \<Rightarrow> c | None \<Rightarrow> extFallback ext)
      else extFallback ext)"

section \<open>The world outside the repository\<close>

text \<open>
  \<^verbatim>\<open>time.Duration\<close> is a count of nanoseconds; \<^verbatim>\<open>time.Second\<close> is 1e9 of them.
\<close>

definition Second :: int where
  "Second = 1000000000"

text \<open>
  \<^verbatim>\<open>exec.Cmd\<close>, as far as the runner reads it. \<^verbatim>\<open>exec.Command(name, arg...)\<close> sets
  \<^verbatim>\<open>Args\<close> to \<^verbatim>\<open>name\<close> followed by \<^verbatim>\<open>arg\<close>, so the slice is never empty: it is kept as
  its head \<open>Arg0\<close> and its tail \<open>ArgRest\<close> (the \<^verbatim>\<open>cmd.Args[1:]\<close> of the runner).
\<close>

record Cmd =
  CmdPath :: string
  Arg0 :: string
  ArgRest :: "string list"
  Dir :: string
  Env :: "string list"

text \<open>
  What one call of \<^verbatim>\<open>cmd2.CombinedOutput()\<close> under its context leaves behind: the captured
  bytes, the error (\<open>None\<close> for \<^verbatim>\<open>nil\<close>) with its message, whether \<^verbatim>\<open>ctx.Err()\<close> is
  \<^verbatim>\<open>context.DeadlineExceeded\<close> afterwards, the time \<^verbatim>\<open>time.Since(toolStart)\<close> measured, and
  whether the call got as far as starting a process. It does not when the command cannot
  be started, and it does not when the context is done already: then it returns
  \<^verbatim>\<open>ctx.Err()\<close> at once.
\<close>

record ProcOutcome =
  POut :: string
  PErr :: "string option"
  CtxDeadlineExceeded :: bool
  Elapsed :: int
  Spawned :: bool

text \<open>
  Everything the runner obtains from the Go library and the operating system is a field of
  \<open>Sys\<close>, left open: the string functions \<^verbatim>\<open>strings.ToLower\<close> and \<^verbatim>\<open>strings.TrimSpace\<close>,
  the rendering of a \<^verbatim>\<open>time.Duration\<close> by \<^verbatim>\<open>%s\<close>, \<^verbatim>\<open>filepath.Join\<close> and
  \<^verbatim>\<open>filepath.Base\<close>, the path that \<^verbatim>\<open>exec.LookPath\<close> returns together with whether its
  error is \<^verbatim>\<open>nil\<close>, whether \<^verbatim>\<open>os.Stat\<close> succeeds, \<^verbatim>\<open>os.UserHomeDir\<close>, the outcome of
  \<^verbatim>\<open>CombinedOutput\<close> in the goroutine of a given index for a command and a deadline, and
  the time between \<^verbatim>\<open>startTime\<close> and the return of \<^verbatim>\<open>wg.Wait()\<close>. \<open>EnsureRockyou\<close> is
  what \<^verbatim>\<open>deps.EnsureRockyouExists()\<close> returns (a path, or the empty string when the
  word list could not be obtained). The three script fields are the Python programs that
  \<^verbatim>\<open>fmt.Sprintf\<close> makes from the templates of the registry.
\<close>

record Sys =
  ToLower :: "string \<Rightarrow> string"
  TrimSpace :: "string \<Rightarrow> string"
  DurationString :: "int \<Rightarrow> string"
  JoinPath :: "string list \<Rightarrow> string"
  Base :: "string \<Rightarrow> string"
  LookPath :: "string \<Rightarrow> string \<times> bool"
  StatOk :: "string \<Rightarrow> bool"
  UserHomeDir :: string
  EnsureRockyou :: string
  StegsolveScript :: "string \<Rightarrow> string \<Rightarrow> string"
  UnicodeStegScript :: "string \<Rightarrow> string"
  SpammimicScript :: "string \<Rightarrow> string"
  CombinedOutput :: "nat \<Rightarrow> Cmd \<Rightarrow> int \<Rightarrow> ProcOutcome"
  BatchElapsed :: int

text \<open>
  \<^verbatim>\<open>exec.Command(name, arg...)\<close>: a name that is its own base is looked up, and the path
  found, if any, becomes \<^verbatim>\<open>Path\<close>. (The error of the lookup, which the command keeps for
  its start, is part of the outcome of running it.)
\<close>

definition exec_Command :: "Sys \<Rightarrow> string \<Rightarrow> string list \<Rightarrow> Cmd" where
  "exec_Command sys name arg =
     (let cmd = \<lparr>CmdPath = name, Arg0 = name, ArgRest = arg, Dir = [], Env = []\<rparr> in
      if Base sys name = name then
        (let lp = fst (LookPath sys name) in
         if lp \<noteq> [] then cmd\<lparr>CmdPath := lp\<rparr> else cmd)
      else cmd)"

section \<open>Dependency probe (pkg/deps/deps.go)\<close>

definition isCommandAvailable :: "Sys \<Rightarrow> string \<Rightarrow> bool" where
  "isCommandAvailable sys name = snd (LookPath sys name)"

definition IsToolAvailable :: "Sys \<Rightarrow> string \<Rightarrow> bool" where
  "IsToolAvailable sys binary = isCommandAvailable sys binary"

text \<open>\<^verbatim>\<open>RockyouPath\<close>: the first of the two system locations that exists, else the local path.\<close>

definition RockyouPath :: "Sys \<Rightarrow> string" where
  "RockyouPath sys =
     (if StatOk sys ''/usr/share/wordlists/rockyou.txt''
        then ''/usr/share/wordlists/rockyou.txt''
      else if StatOk sys ''/usr/share/seclists/Passwords/Leaked-Databases/rockyou.txt''
        then ''/usr/share/seclists/Passwords/Leaked-Databases/rockyou.txt''
      else JoinPath sys [UserHomeDir sys, ''.steg-cli'', ''wordlists'', ''rockyou.txt''])"

section \<open>Runner data (pkg/runner/runner.go, package output)\<close>

record RunOpts =
  Password :: string
  Verbose :: bool
  OutputDir :: string
  Skip :: "string list"
  Only :: "string list"
  Timeout :: int

text \<open>
  \<^verbatim>\<open>type Tool struct\<close>. \<^verbatim>\<open>BuildCmd\<close> returns a \<^verbatim>\<open>*exec.Cmd\<close>; \<^verbatim>\<open>nil\<close> is \<open>None\<close>.
\<close>

record Tool =
  Name :: string
  Binary :: string
  Category :: string
  SupportedTypes :: "FileCategory list"
  BuildCmd :: "string \<Rightarrow> RunOpts \<Rightarrow> Cmd option"

text \<open>
  \<^verbatim>\<open>type Result struct\<close> of package output; its \<^verbatim>\<open>Category\<close> is written \<open>RCategory\<close>.
  \<^verbatim>\<open>Error\<close> is a Go \<^verbatim>\<open>error\<close>: \<open>None\<close> for \<^verbatim>\<open>nil\<close>, else its message.
\<close>

record Result =
  ToolName :: string
  RCategory :: string
  Output :: string
  Error :: "string option"
  Duration :: int
  Skipped :: bool
  SkipReason :: string

text \<open>
  \<^verbatim>\<open>type ScanResult struct\<close>. \<^verbatim>\<open>Results\<close> is a slice of pointers: a \<^verbatim>\<open>nil\<close> entry is
  \<open>None\<close>.
\<close>

record ScanResult =
  SFileInfo :: FileInfo
  Results :: "Result option list"
  TotalDuration :: int


section \<open>Tool registry (package runner, the file defining GetAllTools)\<close>

definition allImageTypes :: "FileCategory list" where
  "allImageTypes =
     [CategoryPNG, CategoryJPG, CategoryBMP, CategoryGIF, CategoryTIFF, CategoryWEBP]"

definition allAudioTypes :: "FileCategory list" where
  "allAudioTypes = [CategoryWAV, CategoryMP3, CategoryFLAC, CategoryOGG, CategoryAU]"

definition allTypes :: "FileCategory list" where
  "allTypes = ([] @ allImageTypes) @ allAudioTypes"

text \<open>
  The command builder shared by \<^verbatim>\<open>stegseek\<close> and \<^verbatim>\<open>stegseek-audio\<close>, which differ in the
  name of the output file only: \<^verbatim>\<open>nil\<close> when no word list can be had.
\<close>

definition stegseekCmd :: "Sys \<Rightarrow> string \<Rightarrow> string \<Rightarrow> string \<Rightarrow> Cmd option" where
  "stegseekCmd sys outputDir outName fp =
     (let rockyou = RockyouPath sys in
      if \<not> StatOk sys rockyou then
        (let rockyou = EnsureRockyou sys in
         if rockyou = [] then None
         else Some (exec_Command sys ''stegseek''
                      [fp, rockyou, JoinPath sys [outputDir, outName], ''--force'']))
      else Some (exec_Command sys ''stegseek''
                   [fp, rockyou, JoinPath sys [outputDir, outName], ''--force'']))"

text \<open>
  \<^verbatim>\<open>func GetAllTools(opts RunOpts) []*Tool\<close>. The directories the function and its
  builders create or remove (\<^verbatim>\<open>os.MkdirAll\<close>, \<^verbatim>\<open>os.RemoveAll\<close>) are effects on the file
  system that no result of the runner reads; they are not part of the model.
\<close>

definition GetAllTools :: "Sys \<Rightarrow> RunOpts \<Rightarrow> Tool list" where
  "GetAllTools sys opts =
     (let outputDir = (if OutputDir opts = [] then ''/tmp/steg-cli-output'' else OutputDir opts)
      in
      [ \<lparr>Name = ''file'', Binary = ''file'', Category = ''general'', SupportedTypes = allTypes,
          BuildCmd = (\<lambda>fp opts. Some (exec_Command sys ''file'' [''-b'', ''--mime'', fp]))\<rparr>,
        \<lparr>Name = ''exiftool'', Binary = ''exiftool'', Category = ''general'',
          SupportedTypes = allTypes,
          BuildCmd = (\<lambda>fp opts. Some (exec_Command sys ''exiftool'' [fp]))\<rparr>,
        \<lparr>Name = ''binwalk'', Binary = ''binwalk'', Category = ''general'',
          SupportedTypes = allTypes,
          BuildCmd = (\<lambda>fp opts. Some (exec_Command sys ''binwalk'' [fp]))\<rparr>,
        \<lparr>Name = ''strings'', Binary = ''strings'', Category = ''general'',
          SupportedTypes = allTypes,
          BuildCmd = (\<lambda>fp opts. Some (exec_Command sys ''strings'' [''-n'', ''8'', fp]))\<rparr>,
        \<lparr>Name = ''hexdump'', Binary = ''xxd'', Category = ''general'', SupportedTypes = allTypes,
          BuildCmd = (\<lambda>fp opts. Some (exec_Command sys ''bash''
            [''-c'', ''xxd '' @ [CHR 0x27] @ fp @ [CHR 0x27] @ '' | head -50'']))\<rparr>,
        \<lparr>Name = ''foremost'', Binary = ''foremost'', Category = ''general'',
          SupportedTypes = allTypes,
          BuildCmd = (\<lambda>fp opts. Some (exec_Command sys ''foremost''
            [''-t'', ''all'', ''-i'', fp, ''-o'', JoinPath sys [outputDir, ''foremost'']]))\<rparr>,
        \<lparr>Name = ''zsteg'', Binary = ''zsteg'', Category = ''image'',
          SupportedTypes = [CategoryPNG, CategoryBMP],
          BuildCmd = (\<lambda>fp opts. Some (exec_Command sys ''zsteg'' [fp, ''--all'']))\<rparr>,
        \<lparr>Name = ''steghide-extract'', Binary = ''steghide'', Category = ''image'',
          SupportedTypes = [CategoryJPG, CategoryBMP, CategoryWAV, CategoryAU],
          BuildCmd = (\<lambda>fp opts. Some (exec_Command sys ''steghide''
            [''extract'', ''-sf'', fp, ''-p'', Password opts,
             ''-xf'', JoinPath sys [outputDir, ''steghide_extracted.txt''], ''-f'']))\<rparr>,
        \<lparr>Name = ''steghide-info'', Binary = ''steghide'', Category = ''image'',
          SupportedTypes = [CategoryJPG, CategoryBMP, CategoryWAV, CategoryAU],
          BuildCmd = (\<lambda>fp opts. Some (exec_Command sys ''steghide'' [''info'', fp, ''-p'', []]))\<rparr>,
        \<lparr>Name = ''pngcheck'', Binary = ''pngcheck'', Category = ''image'',
          SupportedTypes = [CategoryPNG],
          BuildCmd = (\<lambda>fp opts. Some (exec_Command sys ''pngcheck'' [''-vtp'', fp]))\<rparr>,
        \<lparr>Name = ''identify'', Binary = ''gm'', Category = ''image'',
          SupportedTypes = allImageTypes,
          BuildCmd = (\<lambda>fp opts. Some (exec_Command sys ''gm'' [''identify'', ''-verbose'', fp]))\<rparr>,
        \<lparr>Name = ''jsteg'', Binary = ''jsteg'', Category = ''image'',
          SupportedTypes = [CategoryJPG],
          BuildCmd = (\<lambda>fp opts. Some (exec_Command sys ''jsteg'' [''reveal'', fp]))\<rparr>,
        \<lparr>Name = ''openstego'', Binary = ''openstego'', Category = ''image'',
          SupportedTypes = [CategoryPNG],
          BuildCmd = (\<lambda>fp opts. Some (exec_Command sys ''openstego''
            ([''extract'', ''--algorithm'', ''RandomLSB'', ''-sf'', fp,
              ''-xd'', JoinPath sys [outputDir, ''openstego_extracted'']]
             @ (if Password opts \<noteq> [] then [''-p'', Password opts] else []))))\<rparr>,
        \<lparr>Name = ''stegoveritas'', Binary = ''stegoveritas'', Category = ''image'',
          SupportedTypes = allImageTypes,
          BuildCmd = (\<lambda>fp opts. Some (exec_Command sys ''stegoveritas''
            [''-out'', JoinPath sys [outputDir, ''stegoveritas''], fp]))\<rparr>,
        \<lparr>Name = ''stegseek'', Binary = ''stegseek'', Category = ''image'',
          SupportedTypes = [CategoryJPG, CategoryBMP, CategoryWAV, CategoryAU],
          BuildCmd = (\<lambda>fp opts. stegseekCmd sys outputDir ''stegseek_extracted.txt'' fp)\<rparr>,
        \<lparr>Name = ''stegsolve'', Binary = ''python3'', Category = ''image'',
          SupportedTypes = [CategoryPNG, CategoryBMP, CategoryJPG],
          BuildCmd = (\<lambda>fp opts. Some (exec_Command sys ''python3''
            [''-c'', StegsolveScript sys (JoinPath sys [outputDir, ''stegsolve_planes'']) fp]))\<rparr>,
        \<lparr>Name = ''steghide-audio'', Binary = ''steghide'', Category = ''audio'',
          SupportedTypes = [CategoryWAV, CategoryAU],
          BuildCmd = (\<lambda>fp opts. Some (exec_Command sys ''steghide''
            [''extract'', ''-sf'', fp, ''-p'', Password opts,
             ''-xf'', JoinPath sys [outputDir, ''steghide_audio_extracted.txt''], ''-f'']))\<rparr>,
        \<lparr>Name = ''steghide-audio-info'', Binary = ''steghide'', Category = ''audio'',
          SupportedTypes = [CategoryWAV, CategoryAU],
          BuildCmd = (\<lambda>fp opts. Some (exec_Command sys ''steghide'' [''info'', fp, ''-p'', []]))\<rparr>,
        \<lparr>Name = ''wavsteg'', Binary = ''stegolsb'', Category = ''audio'',
          SupportedTypes = [CategoryWAV],
          BuildCmd = (\<lambda>fp opts. Some (exec_Command sys ''stegolsb''
            [''wavsteg'', ''-r'', ''-i'', fp, ''-o'',
             JoinPath sys [outputDir, ''wavsteg_extracted.txt''], ''-n'', ''2'', ''-b'', ''1000'']))\<rparr>,
        \<lparr>Name = ''sox-spectrogram'', Binary = ''sox'', Category = ''audio'',
          SupportedTypes = [CategoryWAV, CategoryMP3, CategoryFLAC, CategoryOGG],
          BuildCmd = (\<lambda>fp opts. Some (exec_Command sys ''sox''
            [fp, ''-n'', ''spectrogram'', ''-o'', JoinPath sys [outputDir, ''spectrogram.png'']]))\<rparr>,
        \<lparr>Name = ''stegseek-audio'', Binary = ''stegseek'', Category = ''audio'',
          SupportedTypes = [CategoryWAV, CategoryAU],
          BuildCmd = (\<lambda>fp opts. stegseekCmd sys outputDir ''stegseek_audio_extracted.txt'' fp)\<rparr>,
        \<lparr>Name = ''unicode-steg'', Binary = ''python3'', Category = ''text'',
          SupportedTypes = allTypes,
          BuildCmd = (\<lambda>fp opts. Some (exec_Command sys ''python3'' [''-c'', UnicodeStegScript sys fp]))\<rparr>,
        \<lparr>Name = ''spammimic'', Binary = ''python3'', Category = ''text'',
          SupportedTypes = allTypes,
          BuildCmd = (\<lambda>fp opts. Some (exec_Command sys ''python3'' [''-c'', SpammimicScript sys fp]))\<rparr>
      ])"

section \<open>Dispatch filter (filterTools)\<close>

text \<open>
  A \<^verbatim>\<open>map[string]bool\<close> is an association list with one entry per key; a key that is
  absent reads as \<^verbatim>\<open>false\<close>, and \<^verbatim>\<open>len\<close> is the number of keys.
\<close>

type_synonym boolmap = "(string \<times> bool) list"

definition mapGet :: "boolmap \<Rightarrow> string \<Rightarrow> bool" where
  "mapGet m k = (case map_of m k of Some b \<Rightarrow> b | None \<Rightarrow> False)"

text \<open>The two loops \<^verbatim>\<open>for _, s := range xs { set[strings.ToLower(s)] = true }\<close>.\<close>

definition lowerSet :: "Sys \<Rightarrow> string list \<Rightarrow> boolmap" where
  "lowerSet sys xs = fold (\<lambda>s m. AList.update (ToLower sys s) True m) xs []"

text \<open>The inner loop over \<^verbatim>\<open>tool.SupportedTypes\<close>, leaving at the first match.\<close>

fun supported :: "FileCategory list \<Rightarrow> FileCategory \<Rightarrow> bool" where
  "supported [] c = False"
| "supported (st # sts) c = (if st = c then True else supported sts c)"

text \<open>
  The main loop: each \<^verbatim>\<open>continue\<close> goes on with the rest of the list, and
  \<^verbatim>\<open>filtered = append(filtered, tool)\<close> puts the tool before what the rest contributes.
\<close>

fun filterLoop :: "Sys \<Rightarrow> boolmap \<Rightarrow> boolmap \<Rightarrow> FileInfo \<Rightarrow> Tool list \<Rightarrow> Tool list" where
  "filterLoop sys skipSet onlySet fileInfo [] = []"
| "filterLoop sys skipSet onlySet fileInfo (tool # tools) =
     (if mapGet skipSet (ToLower sys (Name tool))
        then filterLoop sys skipSet onlySet fileInfo tools
      else if 0 < length onlySet \<and> \<not> mapGet onlySet (ToLower sys (Name tool))
        then filterLoop sys skipSet onlySet fileInfo tools
      else if 0 < length (SupportedTypes tool)
              \<and> \<not> supported (SupportedTypes tool) (FCategory fileInfo)
        then filterLoop sys skipSet onlySet fileInfo tools
      else tool # filterLoop sys skipSet onlySet fileInfo tools)"

definition filterTools :: "Sys \<Rightarrow> Tool list \<Rightarrow> FileInfo \<Rightarrow> RunOpts \<Rightarrow> Tool list" where
  "filterTools sys tools fileInfo opts =
     filterLoop sys (lowerSet sys (Skip opts)) (lowerSet sys (Only opts)) fileInfo tools"

section \<open>Concurrent executor (RunAll)\<close>

text \<open>
  What a goroutine does to the world, beside writing its slot: it calls the command builder
  of its tool, and it starts a process for a command under a deadline. Both carry the
  index of the goroutine.
\<close>

datatype Event = BuildCmdCalled nat | Started nat Cmd int

text \<open>
  The command \<^verbatim>\<open>cmd2\<close> that the goroutine runs in place of the one it was given:
  \<^verbatim>\<open>exec.CommandContext(ctx, cmd.Path, cmd.Args[1:]...)\<close> with \<^verbatim>\<open>Dir\<close> and \<^verbatim>\<open>Env\<close> copied.
\<close>

definition contextCommand :: "Sys \<Rightarrow> Cmd \<Rightarrow> Cmd" where
  "contextCommand sys cmd =
     (exec_Command sys (CmdPath cmd) (ArgRest cmd))\<lparr>Dir := Dir cmd, Env := Env cmd\<rparr>"

text \<open>
  The body of the goroutine \<^verbatim>\<open>func(idx int, t *Tool)\<close> up to, and without, the write
  \<^verbatim>\<open>results[idx] = result\<close> that ends each of its three paths: the result it has built,
  and the events it has caused. \<open>opts\<close> is the variable of \<^verbatim>\<open>RunAll\<close> that the closure
  captures, so its \<open>Timeout\<close> is the one after the default has been put in.
  \<^verbatim>\<open>context.WithTimeout\<close> with a duration that is not positive gives a context that is done
  from the start, under which \<^verbatim>\<open>CombinedOutput\<close> starts nothing: a process is started
  only under a positive timeout, and only if the world says so.
\<close>

definition runTool :: "Sys \<Rightarrow> FileInfo \<Rightarrow> RunOpts \<Rightarrow> nat \<Rightarrow> Tool \<Rightarrow> Result \<times> Event list" where
  "runTool sys fileInfo opts idx t =
     (let result = \<lparr>ToolName = Name t, RCategory = Category t, Output = [], Error = None,
                     Duration = 0, Skipped = False, SkipReason = []\<rparr>
      in
      if \<not> IsToolAvailable sys (Binary t) then
        (result\<lparr>Skipped := True, SkipReason := Binary t @ '' not installed''\<rparr>, [])
      else
        (case BuildCmd t (Path fileInfo) opts of
           None \<Rightarrow>
             (result\<lparr>Skipped := True, SkipReason := ''command not applicable''\<rparr>,
              [BuildCmdCalled idx])
         | Some cmd \<Rightarrow>
             (let cmd2 = contextCommand sys cmd;
                  p = CombinedOutput sys idx cmd2 (Timeout opts);
                  result = result\<lparr>Duration := Elapsed p\<rparr>;
                  result =
                    (if CtxDeadlineExceeded p then
                       result\<lparr>Error := Some (''timeout after '' @ DurationString sys (Timeout opts))\<rparr>
                     else
                       (case PErr p of
                          Some err \<Rightarrow>
                            (let outStr = TrimSpace sys (POut p) in
                             if outStr \<noteq> [] then result\<lparr>Output := outStr\<rparr>
                             else result\<lparr>Error := Some err\<rparr>)
                        | None \<Rightarrow> result\<lparr>Output := TrimSpace sys (POut p)\<rparr>))
              in (result,
                  BuildCmdCalled idx #
                  (if 0 < Timeout opts \<and> Spawned p then [Started idx cmd2 (Timeout opts)]
                   else [])))))"

text \<open>
  The memory the goroutines share: the slice \<^verbatim>\<open>results\<close>, and the events so far. The
  events of one goroutine stay together, in the order of the schedule; the statements below
  ask only whether an event is among them.
\<close>

record Shared =
  slots :: "Result option list"
  events :: "Event list"

text \<open>
  One goroutine, run to its end: the only shared variable it touches is its own slot
  \<^verbatim>\<open>results[idx]\<close>, which it writes once, last.
\<close>

definition goroutine :: "Sys \<Rightarrow> FileInfo \<Rightarrow> RunOpts \<Rightarrow> Tool list \<Rightarrow> nat \<Rightarrow> Shared \<Rightarrow> Shared" where
  "goroutine sys fileInfo opts applicable idx s =
     (case runTool sys fileInfo opts idx (applicable ! idx) of
        (result, evs) \<Rightarrow>
          s\<lparr>slots := (slots s)[idx := Some result], events := events s @ evs\<rparr>)"

text \<open>
  \<^verbatim>\<open>wg.Wait()\<close> returns when each of the \<open>n\<close> goroutines that the loop started, one for
  every index below \<open>n\<close>, has finished. A schedule lists the indices in the order in
  which the goroutines finish; \<open>joined n sched\<close> says that it is such an order.
\<close>

definition joined :: "nat \<Rightarrow> nat list \<Rightarrow> bool" where
  "joined n sched = (distinct sched \<and> length sched = n \<and> list_all (\<lambda>i. i < n) sched)"

text \<open>
  \<^verbatim>\<open>RunAll\<close> from \<^verbatim>\<open>results := make(...)\<close> on, for a list of applicable tools and a
  schedule of the goroutines: the scan result, and the events of the batch.
\<close>

definition runBatch ::
    "Sys \<Rightarrow> nat list \<Rightarrow> FileInfo \<Rightarrow> RunOpts \<Rightarrow> Tool list \<Rightarrow> ScanResult \<times> Event list" where
  "runBatch sys sched fileInfo opts applicable =
     (let results = replicate (length applicable) None;
          s = fold (goroutine sys fileInfo opts applicable) sched
                \<lparr>slots = results, events = []\<rparr>
      in (\<lparr>SFileInfo = fileInfo, Results = slots s, TotalDuration = BatchElapsed sys\<rparr>,
          events s))"

text \<open>The first statement of \<^verbatim>\<open>RunAll\<close>: \<^verbatim>\<open>if opts.Timeout == 0 { opts.Timeout = 60 * time.Second }\<close>.\<close>

definition withDefaultTimeout :: "RunOpts \<Rightarrow> RunOpts" where
  "withDefaultTimeout opts =
     (if Timeout opts = 0 then opts\<lparr>Timeout := 60 * Second\<rparr> else opts)"

text \<open>The list \<^verbatim>\<open>applicable\<close> of \<^verbatim>\<open>RunAll\<close>.\<close>

definition applicableTools :: "Sys \<Rightarrow> FileInfo \<Rightarrow> RunOpts \<Rightarrow> Tool list" where
  "applicableTools sys fileInfo opts =
     (let opts = withDefaultTimeout opts;
          allTools = GetAllTools sys opts
      in filterTools sys allTools fileInfo opts)"

text \<open>
  \<^verbatim>\<open>func RunAll(fileInfo *detector.FileInfo, opts RunOpts) *ScanResult\<close>, in a world and
  under a schedule of its goroutines. Beside the scan result it gives the events of the
  batch, which the Go function leaves in the world.
\<close>

definition RunAll :: "Sys \<Rightarrow> nat list \<Rightarrow> FileInfo \<Rightarrow> RunOpts \<Rightarrow> ScanResult \<times> Event list" where
  "RunAll sys sched fileInfo opts =
     (let opts = withDefaultTimeout opts;
          allTools = GetAllTools sys opts;
          applicable = filterTools sys allTools fileInfo opts
      in runBatch sys sched fileInfo opts applicable)"

text \<open>
  How package output counts a result in \<^verbatim>\<open>PrintSummary\<close>: skipped, else failed when it
  carries an error, else successful.
\<close>

datatype Status = StSkipped | StFailed | StSuccess

definition status :: "Result \<Rightarrow> Status" where
  "status r = (if Skipped r then StSkipped else if Error r \<noteq> None then StFailed else StSuccess)"

section \<open>The scan command (cmd/root.go)\<close>

text \<open>The package variables that the flags of \<^verbatim>\<open>scan\<close> are bound to in \<^verbatim>\<open>init\<close>.\<close>

record Flags =
  password :: string
  skipTools :: "string list"
  onlyTools :: "string list"
  outputDir :: string
  verbose :: bool
  noInstall :: bool
  timeout :: int

text \<open>\<^verbatim>\<open>runner.RunOpts{}\<close>, the zero value.\<close>

definition zeroRunOpts :: RunOpts where
  "zeroRunOpts = \<lparr>Password = [], Verbose = False, OutputDir = [], Skip = [], Only = [],
                   Timeout = 0\<rparr>"

text \<open>The options that \<^verbatim>\<open>scanCmd\<close> hands to \<^verbatim>\<open>runner.RunAll\<close>.\<close>

definition scanOpts :: "Flags \<Rightarrow> RunOpts" where
  "scanOpts fl =
     (let opts = \<lparr>Password = password fl, Verbose = verbose fl, OutputDir = outputDir fl,
                   Skip = skipTools fl, Only = onlyTools fl, Timeout = 60 * 1000000000\<rparr>
      in if 0 < timeout fl then opts\<lparr>Timeout := Timeout zeroRunOpts\<rparr> else opts)"

section \<open>A sample world\<close>

text \<open>
  One world to evaluate the definitions in. Its \<open>ToLower\<close> and \<open>TrimSpace\<close> are the Go
  functions on ASCII text, and its \<open>DurationString\<close> prints the two durations that occur
  below, 60 seconds and minus one nanosecond, as Go does. The binaries \<open>file\<close> and \<open>exiftool\<close> are installed and
  nothing else is. Under a deadline that is not positive nothing is started and the
  deadline is exceeded at once, as under Go's contexts. Under a positive one, the process
  of goroutine 1 runs into its deadline; \<open>file\<close> in goroutine 0 exits with status 1 after
  printing a line, any other command in goroutine 0 exits with status 2 after printing
  white space only; every other process exits with status 0 and no output.
\<close>

definition lowerChar :: "char \<Rightarrow> char" where
  "lowerChar c =
     (if 65 \<le> (of_char c :: nat) \<and> (of_char c :: nat) \<le> 90
      then (case c of Char b0 b1 b2 b3 b4 b5 b6 b7 \<Rightarrow> Char b0 b1 b2 b3 b4 True b6 b7)
      else c)"

definition isSpaceChar :: "char \<Rightarrow> bool" where
  "isSpaceChar c =
     (c = CHR '' '' \<or> c = CHR 0x09 \<or> c = CHR 0x0A \<or> c = CHR 0x0B \<or> c = CHR 0x0C \<or> c = CHR 0x0D)"

definition trimASCII :: "string \<Rightarrow> string" where
  "trimASCII s = rev (dropWhile isSpaceChar (rev (dropWhile isSpaceChar s)))"

definition sampleOutcome :: "nat \<Rightarrow> Cmd \<Rightarrow> int \<Rightarrow> ProcOutcome" where
  "sampleOutcome idx cmd d =
     (if d \<le> 0 then
        \<lparr>POut = [], PErr = Some ''context deadline exceeded'', CtxDeadlineExceeded = True,
         Elapsed = 1000, Spawned = False\<rparr>
      else if idx = 1 then
        \<lparr>POut = [], PErr = Some ''signal: killed'', CtxDeadlineExceeded = True,
         Elapsed = d, Spawned = True\<rparr>
      else if idx = 0 \<and> CmdPath cmd = ''/usr/bin/file'' then
        \<lparr>POut = '' image/png; charset=binary'' @ [CHR 0x0A], PErr = Some ''exit status 1'',
         CtxDeadlineExceeded = False, Elapsed = 5000000, Spawned = True\<rparr>
      else if idx = 0 then
        \<lparr>POut = [CHR 0x0A, CHR '' ''], PErr = Some ''exit status 2'',
         CtxDeadlineExceeded = False, Elapsed = 7000000, Spawned = True\<rparr>
      else \<lparr>POut = [], PErr = None, CtxDeadlineExceeded = False, Elapsed = 1000000,
            Spawned = True\<rparr>)"

definition sampleSys :: Sys where
  "sampleSys =
     \<lparr>ToLower = map lowerChar, TrimSpace = trimASCII,
      DurationString = (\<lambda>d. if d = 60000000000 then ''1m0s''
                             else if d = - 1 then ''-1ns'' else []),
      JoinPath = (\<lambda>xs. foldr (\<lambda>a b. if b = [] then a else a @ ''/'' @ b) xs []),
      Base = (\<lambda>p. rev (takeWhile (\<lambda>c. c \<noteq> CHR ''/'') (rev p))),
      LookPath = (\<lambda>name. if name = ''file'' then (''/usr/bin/file'', True)
                       else if name = ''exiftool'' then (''/usr/bin/exiftool'', True)
                       else ([], False)),
      StatOk = (\<lambda>p. False), UserHomeDir = ''/root'', EnsureRockyou = [],
      StegsolveScript = (\<lambda>d fp. []), UnicodeStegScript = (\<lambda>fp. []),
      SpammimicScript = (\<lambda>fp. []),
      CombinedOutput = sampleOutcome, BatchElapsed = 60000000000\<rparr>"

definition sampleFile :: FileInfo where
  "sampleFile = \<lparr>Path = ''/tmp/a.png'', FName = ''a.png'', Size = 100, FCategory = CategoryPNG,
                  MimeType = ''image/png'', Extension = ''.png''\<rparr>"

text \<open>
  Options that name four tools to run, one of them also to skip, in mixed case, and leave
  the timeout unset.
\<close>

definition sampleOpts :: RunOpts where
  "sampleOpts = \<lparr>Password = [], Verbose = False, OutputDir = [], Skip = [''Strings''],
                  Only = [''file'', ''ExifTool'', ''binwalk'', ''STRINGS''], Timeout = 0\<rparr>"

text \<open>
  A tool that declares no file type, a file of unknown type, options that run
  \<open>exiftool\<close> only, options that name \<open>exiftool\<close> both to skip and to run, the flags
  of \<^verbatim>\<open>scan --timeout 5\<close> with the lists of \<open>sampleOpts\<close>, and \<open>sampleOpts\<close> with a
  negative timeout.
\<close>

definition genericTool :: Tool where
  "genericTool = \<lparr>Name = ''HexView'', Binary = ''xxd'', Category = ''general'',
     SupportedTypes = [], BuildCmd = (\<lambda>fp opts. Some (exec_Command sampleSys ''xxd'' [fp]))\<rparr>"

definition unknownFile :: FileInfo where
  "unknownFile = \<lparr>Path = ''/tmp/notes.xyz'', FName = ''notes.xyz'', Size = 12,
     FCategory = CategoryUnknown, MimeType = ''application/octet-stream'', Extension = ''.xyz''\<rparr>"

definition exifOnly :: RunOpts where
  "exifOnly = \<lparr>Password = [], Verbose = False, OutputDir = [], Skip = [],
                  Only = [''exiftool''], Timeout = 0\<rparr>"

definition clashOpts :: RunOpts where
  "clashOpts = \<lparr>Password = [], Verbose = False, OutputDir = [], Skip = [''EXIFTOOL''],
                  Only = [''ExifTool'', ''hexview''], Timeout = 0\<rparr>"

definition sampleFlags :: Flags where
  "sampleFlags = \<lparr>password = [], skipTools = [''Strings''],
                   onlyTools = [''file'', ''ExifTool'', ''binwalk'', ''STRINGS''],
                   outputDir = [], verbose = False, noInstall = False, timeout = 5\<rparr>"

definition negativeOpts :: RunOpts where
  "negativeOpts = sampleOpts\<lparr>Timeout := - 1\<rparr>"

section \<open>Facts about the filter and the batch\<close>

lemma map_of_lowerSet_gen:
  "map_of (fold (\<lambda>s m. AList.update (f s) True m) xs m0) k =
     (if k \<in> f ` set xs then Some True else map_of m0 k)"
  by (induction xs arbitrary: m0) (auto simp: update_conv)

lemma mapGet_lowerSet: "mapGet (lowerSet sys xs) k \<longleftrightarrow> k \<in> ToLower sys ` set xs"
  by (simp add: mapGet_def lowerSet_def map_of_lowerSet_gen)

lemma update_not_Nil: "AList.update k v al \<noteq> []"
  by (cases al) auto

lemma fold_update_not_Nil:
  "m0 \<noteq> [] \<or> xs \<noteq> [] \<Longrightarrow> fold (\<lambda>s m. AList.update (f s) True m) xs m0 \<noteq> []"
  by (induction xs arbitrary: m0) (auto simp: update_not_Nil)

lemma lowerSet_Nil_iff: "lowerSet sys xs = [] \<longleftrightarrow> xs = []"
  using fold_update_not_Nil [of "[]" xs "ToLower sys"]
  by (cases xs) (auto simp: lowerSet_def)

lemma supported_iff: "supported sts c \<longleftrightarrow> c \<in> set sts"
  by (induction sts) auto

lemma filterLoop_filter:
  "filterLoop sys skipSet onlySet fileInfo tools =
     filter (\<lambda>tool. \<not> mapGet skipSet (ToLower sys (Name tool))
                   \<and> \<not> (0 < length onlySet \<and> \<not> mapGet onlySet (ToLower sys (Name tool)))
                   \<and> \<not> (0 < length (SupportedTypes tool)
                        \<and> \<not> supported (SupportedTypes tool) (FCategory fileInfo))) tools"
  by (induction tools) auto

lemma filterTools_filter:
  "filterTools sys tools fileInfo opts =
     filter (\<lambda>tool. ToLower sys (Name tool) \<notin> ToLower sys ` set (Skip opts)
                   \<and> (Only opts = [] \<or> ToLower sys (Name tool) \<in> ToLower sys ` set (Only opts))
                   \<and> (SupportedTypes tool = [] \<or> FCategory fileInfo \<in> set (SupportedTypes tool))) tools"
  unfolding filterTools_def filterLoop_filter
  by (rule filter_cong) (auto simp: mapGet_lowerSet lowerSet_Nil_iff supported_iff)


lemma length_slots_goroutine:
  "length (slots (goroutine sys fileInfo opts applicable idx s)) = length (slots s)"
  by (simp add: goroutine_def split: prod.split)

lemma slots_goroutine_nth:
  "j < length (slots s) \<Longrightarrow>
   slots (goroutine sys fileInfo opts applicable idx s) ! j =
     (if j = idx then Some (fst (runTool sys fileInfo opts idx (applicable ! idx)))
      else slots s ! j)"
  by (simp add: goroutine_def split: prod.split)

lemma events_goroutine:
  "events (goroutine sys fileInfo opts applicable idx s) =
     events s @ snd (runTool sys fileInfo opts idx (applicable ! idx))"
  by (simp add: goroutine_def split: prod.split)

lemma length_slots_fold:
  "length (slots (fold (goroutine sys fileInfo opts applicable) sched s)) = length (slots s)"
  by (induction sched arbitrary: s) (simp_all add: length_slots_goroutine)

lemma slots_fold_nth:
  "j < length (slots s) \<Longrightarrow>
   slots (fold (goroutine sys fileInfo opts applicable) sched s) ! j =
     (if j \<in> set sched then Some (fst (runTool sys fileInfo opts j (applicable ! j)))
      else slots s ! j)"
proof (induction sched arbitrary: s)
  case Nil
  then show ?case by simp
next
  case (Cons i sched)
  let ?s' = "goroutine sys fileInfo opts applicable i s"
  from Cons.prems have len: "j < length (slots ?s')"
    by (simp add: length_slots_goroutine)
  show ?case
    using Cons.IH [OF len] Cons.prems
    by (simp add: slots_goroutine_nth)
qed

lemma events_fold:
  "set (events (fold (goroutine sys fileInfo opts applicable) sched s)) =
     set (events s) \<union> (\<Union>i\<in>set sched. set (snd (runTool sys fileInfo opts i (applicable ! i))))"
  by (induction sched arbitrary: s) (auto simp: events_goroutine)

lemma joined_set: 
  assumes "joined n sched" 
  shows "set sched = {..<n}"
proof -
  from assms have d: "distinct sched" and l: "length sched = n"
    and b: "set sched \<subseteq> {..<n}"
    by (auto simp: joined_def list_all_iff)
  from d l have "card (set sched) = card {..<n}"
    by (simp add: distinct_card)
  with b show ?thesis
    by (simp add: card_subset_eq)
qed

lemma runBatch_length:
  "length (Results (fst (runBatch sys sched fileInfo opts applicable))) = length applicable"
  by (simp add: runBatch_def Let_def length_slots_fold)

lemma runBatch_nth:
  assumes "joined (length applicable) sched" and "i < length applicable"
  shows "Results (fst (runBatch sys sched fileInfo opts applicable)) ! i =
           Some (fst (runTool sys fileInfo opts i (applicable ! i)))"
  using assms joined_set [OF assms(1)]
  by (simp add: runBatch_def Let_def slots_fold_nth)

lemma runBatch_events:
  assumes "joined (length applicable) sched"
  shows "set (snd (runBatch sys sched fileInfo opts applicable)) =
           (\<Union>i<length applicable. set (snd (runTool sys fileInfo opts i (applicable ! i))))"
  using joined_set [OF assms]
  by (simp add: runBatch_def Let_def events_fold)

lemma RunAll_runBatch:
  "RunAll sys sched fileInfo opts =
     runBatch sys sched fileInfo (withDefaultTimeout opts) (applicableTools sys fileInfo opts)"
  by (simp add: RunAll_def applicableTools_def Let_def)

lemma runTool_events_cases:
  "e \<in> set (snd (runTool sys fileInfo opts i t)) \<Longrightarrow>
     e = BuildCmdCalled i \<or> (\<exists>c. e = Started i c (Timeout opts))"
  by (auto simp: runTool_def Let_def split: if_splits option.splits)

lemma runTool_unavailable:
  "\<not> IsToolAvailable sys (Binary t) \<Longrightarrow>
   runTool sys fileInfo opts i t =
     (\<lparr>ToolName = Name t, RCategory = Category t, Output = [], Error = None, Duration = 0,
       Skipped = True, SkipReason = Binary t @ '' not installed''\<rparr>, [])"
  by (simp add: runTool_def)

lemma RunAll_nth:
  assumes "joined (length (applicableTools sys fileInfo opts)) sched"
    and "i < length (applicableTools sys fileInfo opts)"
  shows "Results (fst (RunAll sys sched fileInfo opts)) ! i =
           Some (fst (runTool sys fileInfo (withDefaultTimeout opts) i
                        (applicableTools sys fileInfo opts ! i)))"
  using assms by (simp add: RunAll_runBatch runBatch_nth)

lemma RunAll_events_sub:
  assumes "e \<in> set (snd (RunAll sys sched fileInfo opts))"
  shows "\<exists>i\<in>set sched. e \<in> set (snd (runTool sys fileInfo (withDefaultTimeout opts) i
                        (applicableTools sys fileInfo opts ! i)))"
  using assms by (auto simp: RunAll_runBatch runBatch_def Let_def events_fold)

lemma runTool_ran:
  assumes "IsToolAvailable sys (Binary t)"
    and "BuildCmd t (Path fileInfo) opts = Some cmd"
  shows "runTool sys fileInfo opts i t =
     (let p = CombinedOutput sys i (contextCommand sys cmd) (Timeout opts);
          result = \<lparr>ToolName = Name t, RCategory = Category t, Output = [], Error = None,
                     Duration = Elapsed p, Skipped = False, SkipReason = []\<rparr>
      in (if CtxDeadlineExceeded p
          then result\<lparr>Error := Some (''timeout after '' @ DurationString sys (Timeout opts))\<rparr>
          else case PErr p of
                 Some err \<Rightarrow> if TrimSpace sys (POut p) \<noteq> []
                             then result\<lparr>Output := TrimSpace sys (POut p)\<rparr>
                             else result\<lparr>Error := Some err\<rparr>
               | None \<Rightarrow> result\<lparr>Output := TrimSpace sys (POut p)\<rparr>,
          BuildCmdCalled i #
          (if 0 < Timeout opts \<and> Spawned p
           then [Started i (contextCommand sys cmd) (Timeout opts)] else [])))"
  using assms by (simp add: runTool_def Let_def split: option.split)

lemma RunAll_events:
  assumes "joined (length (applicableTools sys fileInfo opts)) sched"
  shows "set (snd (RunAll sys sched fileInfo opts)) =
           (\<Union>i<length (applicableTools sys fileInfo opts).
               set (snd (runTool sys fileInfo (withDefaultTimeout opts) i
                           (applicableTools sys fileInfo opts ! i))))"
  using assms by (simp add: RunAll_runBatch runBatch_events)

lemma RunAll_started_deadline:
  assumes "Started i cmd d \<in> set (snd (RunAll sys sched fileInfo opts))"
  shows "d = Timeout (withDefaultTimeout opts)"
proof -
  from RunAll_events_sub [OF assms] obtain j
    where "Started i cmd d \<in> set (snd (runTool sys fileInfo (withDefaultTimeout opts) j
                                       (applicableTools sys fileInfo opts ! j)))"
    by blast
  from runTool_events_cases [OF this] show ?thesis by auto
qed

lemma GetAllTools_cong:
  "OutputDir a = OutputDir b \<Longrightarrow> GetAllTools sys a = GetAllTools sys b"
  by (simp add: GetAllTools_def)

lemma filterTools_cong:
  "Skip a = Skip b \<Longrightarrow> Only a = Only b \<Longrightarrow>
   filterTools sys tools fileInfo a = filterTools sys tools fileInfo b"
  by (simp add: filterTools_def)

lemma applicableTools_cong:
  assumes "Skip a = Skip b" and "Only a = Only b" and "OutputDir a = OutputDir b"
  shows "applicableTools sys fileInfo a = applicableTools sys fileInfo b"
proof -
  have "GetAllTools sys (withDefaultTimeout a) = GetAllTools sys (withDefaultTimeout b)"
    using assms(3) by (intro GetAllTools_cong) (simp add: withDefaultTimeout_def)
  moreover have "filterTools sys tools fileInfo (withDefaultTimeout a)
                   = filterTools sys tools fileInfo (withDefaultTimeout b)" for tools
    using assms(1,2) by (intro filterTools_cong) (simp_all add: withDefaultTimeout_def)
  ultimately show ?thesis
    by (simp add: applicableTools_def Let_def)
qed

section \<open>The sample world, evaluated\<close>

lemma exiftool_in_registry:
  "GetAllTools sys opts ! 1 \<in> set (GetAllTools sys opts) \<and> Name (GetAllTools sys opts ! 1) = ''exiftool''"
  by (simp add: GetAllTools_def Let_def)

lemma sample_lower_registry:
  "list_all (\<lambda>t. ToLower sampleSys (Name t) = Name t) (GetAllTools sampleSys opts)"
  by (simp add: GetAllTools_def Let_def sampleSys_def lowerChar_def)

lemma sample_applicable:
  "applicableTools sampleSys sampleFile sampleOpts =
    [ \<lparr>Name = ''file'', Binary = ''file'', Category = ''general'', SupportedTypes = allTypes,
          BuildCmd = (\<lambda>fp opts. Some (exec_Command sampleSys ''file'' [''-b'', ''--mime'', fp]))\<rparr>,
        \<lparr>Name = ''exiftool'', Binary = ''exiftool'', Category = ''general'',
          SupportedTypes = allTypes,
          BuildCmd = (\<lambda>fp opts. Some (exec_Command sampleSys ''exiftool'' [fp]))\<rparr>,
        \<lparr>Name = ''binwalk'', Binary = ''binwalk'', Category = ''general'',
          SupportedTypes = allTypes,
          BuildCmd = (\<lambda>fp opts. Some (exec_Command sampleSys ''binwalk'' [fp]))\<rparr>]"
  by (simp add: applicableTools_def filterTools_filter sampleSys_def sampleFile_def sampleOpts_def withDefaultTimeout_def
     GetAllTools_def Let_def allTypes_def allImageTypes_def allAudioTypes_def lowerChar_def)

lemma sample_timeout: "Timeout (withDefaultTimeout sampleOpts) = 60000000000"
  by (simp add: withDefaultTimeout_def sampleOpts_def Second_def)

lemma sample_joined: "joined (length (applicableTools sampleSys sampleFile sampleOpts)) [2, 0, 1]"
  by (simp add: sample_applicable joined_def)

lemma sample_file_result:
  assumes "Skip opts = Skip sampleOpts" and "Only opts = Only sampleOpts"
    and "OutputDir opts = OutputDir sampleOpts"
  shows "Results (fst (RunAll sampleSys [2, 0, 1] sampleFile opts)) ! 0 =
           Some (fst (runTool sampleSys sampleFile (withDefaultTimeout opts) 0
             \<lparr>Name = ''file'', Binary = ''file'', Category = ''general'',
              SupportedTypes = allTypes,
              BuildCmd = (\<lambda>fp opts. Some (exec_Command sampleSys ''file'' [''-b'', ''--mime'', fp]))\<rparr>))"
proof -
  have app: "applicableTools sampleSys sampleFile opts
               = applicableTools sampleSys sampleFile sampleOpts"
    using assms by (rule applicableTools_cong)
  have j: "joined (length (applicableTools sampleSys sampleFile opts)) [2, 0, 1]"
    unfolding app by (rule sample_joined)
  have i: "0 < length (applicableTools sampleSys sampleFile opts)"
    unfolding app sample_applicable by simp
  show ?thesis
    unfolding RunAll_nth [OF j i] unfolding app sample_applicable by simp
qed

lemma sample_file_available:
  "IsToolAvailable sampleSys ''file''"
  by (simp add: IsToolAvailable_def isCommandAvailable_def sampleSys_def)

lemma sample_file_command:
  "contextCommand sampleSys (exec_Command sampleSys ''file'' [''-b'', ''--mime'', ''/tmp/a.png''])
     = \<lparr>CmdPath = ''/usr/bin/file'', Arg0 = ''/usr/bin/file'',
        ArgRest = [''-b'', ''--mime'', ''/tmp/a.png''], Dir = [], Env = []\<rparr>"
  by (simp add: contextCommand_def exec_Command_def sampleSys_def Let_def)

lemma sample_started:
  "Started 0
     (contextCommand sampleSys (exec_Command sampleSys ''file'' [''-b'', ''--mime'', ''/tmp/a.png'']))
     60000000000
   \<in> set (snd (RunAll sampleSys [2, 0, 1] sampleFile sampleOpts))"
proof -
  let ?file = "exec_Command sampleSys ''file'' [''-b'', ''--mime'', ''/tmp/a.png'']"
  have a: "IsToolAvailable sampleSys (Binary (applicableTools sampleSys sampleFile sampleOpts ! 0))"
    unfolding sample_applicable by (simp add: sample_file_available)
  have b: "BuildCmd (applicableTools sampleSys sampleFile sampleOpts ! 0) (Path sampleFile)
             (withDefaultTimeout sampleOpts) = Some ?file"
    unfolding sample_applicable by (simp add: sampleFile_def)
  have sp: "Spawned (CombinedOutput sampleSys 0 (contextCommand sampleSys ?file) 60000000000)"
    unfolding sample_file_command by (simp add: sampleSys_def sampleOutcome_def)
  have "Started 0 (contextCommand sampleSys ?file) 60000000000
         \<in> set (snd (runTool sampleSys sampleFile (withDefaultTimeout sampleOpts) 0
                        (applicableTools sampleSys sampleFile sampleOpts ! 0)))"
    using sp by (simp add: runTool_ran [OF a b] Let_def sample_timeout)
  moreover have "0 < length (applicableTools sampleSys sampleFile sampleOpts)"
    unfolding sample_applicable by simp
  ultimately show ?thesis
    unfolding RunAll_events [OF sample_joined] by blast
qed

lemma exif_applicable:
  "applicableTools sampleSys sampleFile exifOnly =
    [\<lparr>Name = ''exiftool'', Binary = ''exiftool'', Category = ''general'',
          SupportedTypes = allTypes,
          BuildCmd = (\<lambda>fp opts. Some (exec_Command sampleSys ''exiftool'' [fp]))\<rparr>]"
  by (simp add: applicableTools_def filterTools_filter sampleSys_def sampleFile_def exifOnly_def
        withDefaultTimeout_def GetAllTools_def Let_def allTypes_def allImageTypes_def
        allAudioTypes_def lowerChar_def)

lemma exif_timeout: "Timeout (withDefaultTimeout exifOnly) = 60000000000"
  by (simp add: withDefaultTimeout_def exifOnly_def Second_def)

section \<open>Classification of PNG signatures\<close>

text \<open>
  C5, as the classifier computes it: for every header of at least eight bytes whose first
  four bytes are 89 50 4E 47, \<open>detectCategory\<close> assigns the category png and \<open>IsImage\<close>
  is true of a file information carrying that category, whatever the extension and the
  MIME string are (so also for the extension \<open>.txt\<close>). The signature table is consulted
  only behind the length test, which is why eight bytes are asked for.
\<close>

theorem detectCategory_png_magic:
  assumes "8 \<le> length header"
    and "take 4 header = [0x89, 0x50, 0x4E, 0x47]"
  shows "detectCategory mime ext header = CategoryPNG
         \<and> IsImage (fi\<lparr>FCategory := detectCategory mime ext header\<rparr>)"
proof -
  from assms have len: "4 \<le> length header" by simp
  have nth: "header ! i = take 4 header ! i" if "i < 4" for i
    using that by simp
  have "header ! 0 = 0x89" "header ! 1 = 0x50" "header ! 2 = 0x4E" "header ! 3 = 0x47"
    using assms(2) by (simp_all add: nth)
  then have "magicBytes header = Some CategoryPNG"
    by (simp add: magicBytes_def)
  with assms(1) have "detectCategory mime ext header = CategoryPNG"
    by (simp add: detectCategory_def)
  then show ?thesis
    by (simp add: IsImage_def)
qed

theorem detectCategory_png_magic_witness:
  "8 \<le> length [0x89, 0x50, 0x4E, 0x47, 0x0D, 0x0A, 0x1A, 0x0A :: byte]
   \<and> take 4 [0x89, 0x50, 0x4E, 0x47, 0x0D, 0x0A, 0x1A, 0x0A :: byte] = [0x89, 0x50, 0x4E, 0x47]
   \<and> detectCategory ''text/plain; charset=utf-8'' ''.txt''
        [0x89, 0x50, 0x4E, 0x47, 0x0D, 0x0A, 0x1A, 0x0A] = CategoryPNG
   \<and> IsImage (unknownFile\<lparr>FCategory := detectCategory ''text/plain; charset=utf-8'' ''.txt''
        [0x89, 0x50, 0x4E, 0x47, 0x0D, 0x0A, 0x1A, 0x0A]\<rparr>)"
proof -
  have a: "8 \<le> length [0x89, 0x50, 0x4E, 0x47, 0x0D, 0x0A, 0x1A, 0x0A :: byte]"
    and b: "take 4 [0x89, 0x50, 0x4E, 0x47, 0x0D, 0x0A, 0x1A, 0x0A :: byte]
              = [0x89, 0x50, 0x4E, 0x47]"
    by simp_all
  from detectCategory_png_magic
         [OF a b, where mime = "''text/plain; charset=utf-8''" and ext = "''.txt''"
            and fi = unknownFile]
    a b
  show ?thesis by blast
qed

text \<open>
  A file of exactly four bytes 89 50 4E 47 named with the extension \<open>.txt\<close>: the read
  returns four bytes, the length test fails, the extension table has no entry, and the
  category is unknown, not png.
\<close>

theorem detectCategory_png_short_counterexample:
  "take 4 [0x89, 0x50, 0x4E, 0x47 :: byte] = [0x89, 0x50, 0x4E, 0x47]
   \<and> detectCategory ''application/octet-stream'' ''.txt'' [0x89, 0x50, 0x4E, 0x47] = CategoryUnknown
   \<and> \<not> IsImage \<lparr>Path = ''/tmp/a.txt'', FName = ''a.txt'', Size = 4,
        FCategory = detectCategory ''application/octet-stream'' ''.txt'' [0x89, 0x50, 0x4E, 0x47],
        MimeType = ''application/octet-stream'', Extension = ''.txt''\<rparr>"
  by (simp add: detectCategory_def extFallback_def IsImage_def)

section \<open>The result collection after the join\<close>

text \<open>
  C1: for every file, every options value and every world, and for every order in which
  the goroutines of the batch finish before \<^verbatim>\<open>wg.Wait()\<close> returns, the \<open>Results\<close> of the
  scan result that \<open>RunAll\<close> returns are as many as the filtered tool list has entries,
  and every index holds a result (none is \<^verbatim>\<open>nil\<close>): the result of the tool at the same
  index of the filtered list, carrying its name and category.
\<close>

theorem RunAll_results_populated:
  assumes "joined (length (applicableTools sys fileInfo opts)) sched"
  shows "length (Results (fst (RunAll sys sched fileInfo opts)))
           = length (applicableTools sys fileInfo opts)
         \<and> (\<forall>i < length (applicableTools sys fileInfo opts).
              \<exists>r. Results (fst (RunAll sys sched fileInfo opts)) ! i = Some r
                 \<and> ToolName r = Name (applicableTools sys fileInfo opts ! i)
                 \<and> RCategory r = Category (applicableTools sys fileInfo opts ! i))"
proof (intro conjI allI impI)
  show "length (Results (fst (RunAll sys sched fileInfo opts)))
          = length (applicableTools sys fileInfo opts)"
    by (simp add: RunAll_runBatch runBatch_length)
next
  fix i assume i: "i < length (applicableTools sys fileInfo opts)"
  let ?t = "applicableTools sys fileInfo opts ! i"
  let ?r = "fst (runTool sys fileInfo (withDefaultTimeout opts) i ?t)"
  have "ToolName ?r = Name ?t \<and> RCategory ?r = Category ?t"
    by (simp add: runTool_def Let_def split: option.split)
  with RunAll_nth [OF assms i]
  show "\<exists>r. Results (fst (RunAll sys sched fileInfo opts)) ! i = Some r
           \<and> ToolName r = Name ?t \<and> RCategory r = Category ?t"
    by blast
qed

theorem RunAll_results_populated_witness:
  "joined (length (applicableTools sampleSys sampleFile sampleOpts)) [2, 0, 1]
   \<and> length (Results (fst (RunAll sampleSys [2, 0, 1] sampleFile sampleOpts))) = 3
   \<and> map_option ToolName (Results (fst (RunAll sampleSys [2, 0, 1] sampleFile sampleOpts)) ! 0) = Some ''file''
   \<and> map_option ToolName (Results (fst (RunAll sampleSys [2, 0, 1] sampleFile sampleOpts)) ! 1) = Some ''exiftool''
   \<and> map_option ToolName (Results (fst (RunAll sampleSys [2, 0, 1] sampleFile sampleOpts)) ! 2) = Some ''binwalk''"
proof -
  have j: "joined (length (applicableTools sampleSys sampleFile sampleOpts)) [2, 0, 1]"
    by (simp add: sample_applicable joined_def)
  note th = RunAll_results_populated [OF j]
  from th have len: "length (Results (fst (RunAll sampleSys [2, 0, 1] sampleFile sampleOpts))) = 3"
    by (simp add: sample_applicable)
  have "\<exists>r. Results (fst (RunAll sampleSys [2, 0, 1] sampleFile sampleOpts)) ! 0 = Some r
           \<and> ToolName r = ''file''"
    using th [THEN conjunct2, rule_format, of 0] by (auto simp: sample_applicable)
  then have r0:
    "map_option ToolName (Results (fst (RunAll sampleSys [2, 0, 1] sampleFile sampleOpts)) ! 0) = Some ''file''"
    by auto
  have "\<exists>r. Results (fst (RunAll sampleSys [2, 0, 1] sampleFile sampleOpts)) ! 1 = Some r
           \<and> ToolName r = ''exiftool''"
    using th [THEN conjunct2, rule_format, of 1] by (auto simp: sample_applicable)
  then have r1:
    "map_option ToolName (Results (fst (RunAll sampleSys [2, 0, 1] sampleFile sampleOpts)) ! 1) = Some ''exiftool''"
    by auto
  have "\<exists>r. Results (fst (RunAll sampleSys [2, 0, 1] sampleFile sampleOpts)) ! 2 = Some r
           \<and> ToolName r = ''binwalk''"
    using th [THEN conjunct2, rule_format, of 2] by (auto simp: sample_applicable)
  then have r2:
    "map_option ToolName (Results (fst (RunAll sampleSys [2, 0, 1] sampleFile sampleOpts)) ! 2) = Some ''binwalk''"
    by auto
  from j len r0 r1 r2 show ?thesis by simp
qed

section \<open>Exclusion wins over inclusion\<close>

text \<open>
  C7: a tool whose name, lower-cased by \<^verbatim>\<open>strings.ToLower\<close>, is the lower-cased form of an
  entry of the \<open>Skip\<close> list and also of an entry of the \<open>Only\<close> list is not in the list
  that \<open>filterTools\<close> returns, for every list of tools, every file and every way
  \<^verbatim>\<open>strings.ToLower\<close> may map strings. The check of \<open>Skip\<close> comes first in the loop and
  leaves the iteration, so the entry of \<open>Only\<close> is never looked at.
\<close>

theorem filterTools_skip_wins:
  assumes "ToLower sys (Name t) \<in> ToLower sys ` set (Skip opts)"
    and "ToLower sys (Name t) \<in> ToLower sys ` set (Only opts)"
  shows "t \<notin> set (filterTools sys tools fileInfo opts)"
  using assms(1) by (simp add: filterTools_filter)

theorem filterTools_skip_wins_witness:
  "ToLower sampleSys (Name (GetAllTools sampleSys clashOpts ! 1)) \<in> ToLower sampleSys ` set (Skip clashOpts)
   \<and> ToLower sampleSys (Name (GetAllTools sampleSys clashOpts ! 1)) \<in> ToLower sampleSys ` set (Only clashOpts)
   \<and> GetAllTools sampleSys clashOpts ! 1 \<in> set (GetAllTools sampleSys clashOpts)
   \<and> GetAllTools sampleSys clashOpts ! 1
        \<notin> set (filterTools sampleSys (GetAllTools sampleSys clashOpts) sampleFile clashOpts)"
proof -
  have n: "Name (GetAllTools sampleSys clashOpts ! 1) = ''exiftool''"
    and m: "GetAllTools sampleSys clashOpts ! 1 \<in> set (GetAllTools sampleSys clashOpts)"
    using exiftool_in_registry [of sampleSys clashOpts] by simp_all
  have s: "ToLower sampleSys (Name (GetAllTools sampleSys clashOpts ! 1))
             \<in> ToLower sampleSys ` set (Skip clashOpts)"
    unfolding n by (simp add: sampleSys_def clashOpts_def lowerChar_def)
  have k: "ToLower sampleSys (Name (GetAllTools sampleSys clashOpts ! 1))
             \<in> ToLower sampleSys ` set (Only clashOpts)"
    unfolding n by (simp add: sampleSys_def clashOpts_def lowerChar_def)
  from filterTools_skip_wins [OF s k] s k m show ?thesis by simp
qed

section \<open>Tools that declare no file type\<close>

text \<open>
  C9: a tool of the list whose \<open>SupportedTypes\<close> is empty, whose lower-cased name is not
  the lower-cased form of an entry of \<open>Skip\<close> and, when \<open>Only\<close> is not empty, is the
  lower-cased form of one of its entries, is in the list that \<open>filterTools\<close> returns, for
  every file and so for every category, \<open>CategoryUnknown\<close> among them.
\<close>

theorem filterTools_empty_types:
  assumes "t \<in> set tools" and "SupportedTypes t = []"
    and "ToLower sys (Name t) \<notin> ToLower sys ` set (Skip opts)"
    and "Only opts = [] \<or> ToLower sys (Name t) \<in> ToLower sys ` set (Only opts)"
  shows "t \<in> set (filterTools sys tools fileInfo opts)"
  using assms by (simp add: filterTools_filter)

theorem filterTools_empty_types_witness:
  "genericTool \<in> set (GetAllTools sampleSys clashOpts @ [genericTool])
   \<and> SupportedTypes genericTool = []
   \<and> ToLower sampleSys (Name genericTool) \<notin> ToLower sampleSys ` set (Skip clashOpts)
   \<and> ToLower sampleSys (Name genericTool) \<in> ToLower sampleSys ` set (Only clashOpts)
   \<and> FCategory unknownFile = CategoryUnknown
   \<and> genericTool \<in> set (filterTools sampleSys (GetAllTools sampleSys clashOpts @ [genericTool])
                          unknownFile clashOpts)"
proof -
  have a: "genericTool \<in> set (GetAllTools sampleSys clashOpts @ [genericTool])" by simp
  have b: "SupportedTypes genericTool = []" by (simp add: genericTool_def)
  have c: "ToLower sampleSys (Name genericTool) \<notin> ToLower sampleSys ` set (Skip clashOpts)"
    by (simp add: genericTool_def sampleSys_def clashOpts_def lowerChar_def)
  have d: "ToLower sampleSys (Name genericTool) \<in> ToLower sampleSys ` set (Only clashOpts)"
    by (simp add: genericTool_def sampleSys_def clashOpts_def lowerChar_def)
  from filterTools_empty_types [OF a b c disjI2 [OF d]] a b c d show ?thesis
    by (simp add: unknownFile_def)
qed

section \<open>Running exiftool only\<close>

text \<open>
  C10 asks for a filtered list of exactly one entry when \<open>exiftool\<close> is the only tool to
  run. At a file of unknown category the code gives none: the registry declares
  \<open>exiftool\<close>, like each of its general tools, for \<open>allTypes\<close>, the eleven recognised
  categories, so the filter drops it, and \<open>RunAll\<close> calls no command builder and starts no
  process, where the scan command has announced for such a file that the general tools
  will run.
\<close>

theorem filterTools_only_exiftool_unknown:
  "Only exifOnly = [''exiftool''] \<and> Skip exifOnly = []
   \<and> FCategory unknownFile = CategoryUnknown
   \<and> length (GetAllTools sampleSys exifOnly) = 23
   \<and> filterTools sampleSys (GetAllTools sampleSys exifOnly) unknownFile exifOnly = []
   \<and> length (filterTools sampleSys (GetAllTools sampleSys exifOnly) unknownFile exifOnly) \<noteq> 1
   \<and> Results (fst (RunAll sampleSys [] unknownFile exifOnly)) = []
   \<and> snd (RunAll sampleSys [] unknownFile exifOnly) = []"
proof -
  have f: "filterTools sampleSys (GetAllTools sampleSys opts) unknownFile opts = []" for opts
    by (simp add: filterTools_filter GetAllTools_def Let_def allTypes_def allImageTypes_def
          allAudioTypes_def unknownFile_def)
  have l: "length (GetAllTools sampleSys exifOnly) = 23"
    by (simp add: GetAllTools_def Let_def)
  have r: "RunAll sampleSys [] unknownFile exifOnly
             = runBatch sampleSys [] unknownFile (withDefaultTimeout exifOnly) []"
    by (simp add: RunAll_def Let_def f)
  have o: "Only exifOnly = [''exiftool''] \<and> Skip exifOnly = []"
    by (simp add: exifOnly_def)
  have u: "FCategory unknownFile = CategoryUnknown"
    by (simp add: unknownFile_def)
  have b: "Results (fst (RunAll sampleSys [] unknownFile exifOnly)) = []
           \<and> snd (RunAll sampleSys [] unknownFile exifOnly) = []"
    unfolding r by (simp add: runBatch_def)
  from o u l b show ?thesis
    unfolding f by simp
qed

text \<open>
  Where the category is one of the eleven, the list is the one entry \<open>exiftool\<close>, out of
  23 descriptors. The names of the registry are lower-case ASCII, which
  \<^verbatim>\<open>strings.ToLower\<close> leaves as they are: this is the first assumption.
\<close>

lemma filterTools_only_exiftool_recognised:
  assumes "list_all (\<lambda>t. ToLower sys (Name t) = Name t) (GetAllTools sys opts)"
    and "Only opts = [''exiftool'']" and "Skip opts = []"
    and "FCategory fileInfo \<noteq> CategoryUnknown"
  shows "map Name (filterTools sys (GetAllTools sys opts) fileInfo opts) = [''exiftool'']"
  using assms
  apply (simp add: filterTools_filter)
  apply (simp add: GetAllTools_def Let_def allTypes_def allImageTypes_def allAudioTypes_def)
  apply (cases "FCategory fileInfo"; simp)
  done

lemma filterTools_only_exiftool_sample:
  "map Name (filterTools sampleSys (GetAllTools sampleSys exifOnly) sampleFile exifOnly)
     = [''exiftool'']"
  by (rule filterTools_only_exiftool_recognised [OF sample_lower_registry])
     (simp_all add: exifOnly_def sampleFile_def)

section \<open>A binary that is not installed\<close>

text \<open>
  C8: when the binary of the tool at index \<open>i\<close> of the filtered list is not found by
  \<^verbatim>\<open>deps.IsToolAvailable\<close>, the result at index \<open>i\<close> after the join is skipped, with the
  reason the binary's name followed by \<open>not installed\<close> and every other field at its zero
  value; and among the events of the batch there is neither a call of that tool's command
  builder nor a subprocess started by its goroutine.
\<close>

theorem RunAll_missing_binary:
  assumes "joined (length (applicableTools sys fileInfo opts)) sched"
    and "i < length (applicableTools sys fileInfo opts)"
    and "\<not> IsToolAvailable sys (Binary (applicableTools sys fileInfo opts ! i))"
  shows "Results (fst (RunAll sys sched fileInfo opts)) ! i =
           Some \<lparr>ToolName = Name (applicableTools sys fileInfo opts ! i),
                  RCategory = Category (applicableTools sys fileInfo opts ! i),
                  Output = [], Error = None, Duration = 0, Skipped = True,
                  SkipReason = Binary (applicableTools sys fileInfo opts ! i) @ '' not installed''\<rparr>
         \<and> BuildCmdCalled i \<notin> set (snd (RunAll sys sched fileInfo opts))
         \<and> (\<forall>cmd d. Started i cmd d \<notin> set (snd (RunAll sys sched fileInfo opts)))"
proof -
  let ?app = "applicableTools sys fileInfo opts"
  let ?o = "withDefaultTimeout opts"
  have res: "Results (fst (RunAll sys sched fileInfo opts)) ! i =
               Some (fst (runTool sys fileInfo ?o i (?app ! i)))"
    by (rule RunAll_nth [OF assms(1,2)])
  have none: "snd (runTool sys fileInfo ?o i (?app ! i)) = []"
    using assms(3) by (simp add: runTool_unavailable)
  have no_event: "e \<notin> set (snd (RunAll sys sched fileInfo opts))"
    if e: "e = BuildCmdCalled i \<or> (\<exists>cmd d. e = Started i cmd d)" for e
  proof
    assume "e \<in> set (snd (RunAll sys sched fileInfo opts))"
    then obtain j where j: "e \<in> set (snd (runTool sys fileInfo ?o j (?app ! j)))"
      using RunAll_events_sub by blast
    from runTool_events_cases [OF j] e have "j = i" by auto
    with j none show False by simp
  qed
  from res assms(3) show ?thesis
    by (auto simp: runTool_unavailable no_event)
qed

theorem RunAll_missing_binary_witness:
  "joined (length (applicableTools sampleSys sampleFile sampleOpts)) [2, 0, 1]
   \<and> 2 < length (applicableTools sampleSys sampleFile sampleOpts)
   \<and> \<not> IsToolAvailable sampleSys (Binary (applicableTools sampleSys sampleFile sampleOpts ! 2))
   \<and> Results (fst (RunAll sampleSys [2, 0, 1] sampleFile sampleOpts)) ! 2 =
        Some \<lparr>ToolName = ''binwalk'', RCategory = ''general'', Output = [], Error = None,
               Duration = 0, Skipped = True, SkipReason = ''binwalk not installed''\<rparr>
   \<and> BuildCmdCalled 2 \<notin> set (snd (RunAll sampleSys [2, 0, 1] sampleFile sampleOpts))"
proof -
  have i: "2 < length (applicableTools sampleSys sampleFile sampleOpts)"
    by (simp add: sample_applicable)
  have a: "\<not> IsToolAvailable sampleSys (Binary (applicableTools sampleSys sampleFile sampleOpts ! 2))"
    unfolding sample_applicable by (simp add: IsToolAvailable_def isCommandAvailable_def sampleSys_def)
  from RunAll_missing_binary [OF sample_joined i a] sample_joined i a
  show ?thesis by (simp add: sample_applicable)
qed

section \<open>A subprocess that runs into its deadline\<close>

text \<open>
  C6: when the tool at index \<open>i\<close> is installed, its command builder returns a command,
  and the context of its subprocess reports \<^verbatim>\<open>context.DeadlineExceeded\<close>, the result at
  index \<open>i\<close> after the join is a failure, not a success and not a skip: its error reads
  \<open>timeout after\<close> followed by the duration \<^verbatim>\<open>opts.Timeout\<close> as \<^verbatim>\<open>%s\<close> prints it, the
  duration the subprocess was bounded by, and it carries no output.
\<close>

theorem RunAll_timeout_failure:
  assumes "joined (length (applicableTools sys fileInfo opts)) sched"
    and "i < length (applicableTools sys fileInfo opts)"
    and "IsToolAvailable sys (Binary (applicableTools sys fileInfo opts ! i))"
    and "BuildCmd (applicableTools sys fileInfo opts ! i) (Path fileInfo) (withDefaultTimeout opts)
           = Some cmd"
    and "CtxDeadlineExceeded
           (CombinedOutput sys i (contextCommand sys cmd) (Timeout (withDefaultTimeout opts)))"
  shows "\<exists>r. Results (fst (RunAll sys sched fileInfo opts)) ! i = Some r
             \<and> status r = StFailed
             \<and> Error r = Some (''timeout after ''
                               @ DurationString sys (Timeout (withDefaultTimeout opts)))
             \<and> Output r = []"
  using RunAll_nth [OF assms(1,2)] assms(5)
  by (simp add: runTool_ran [OF assms(3,4)] Let_def status_def)

theorem RunAll_timeout_failure_witness:
  "joined (length (applicableTools sampleSys sampleFile sampleOpts)) [2, 0, 1]
   \<and> 1 < length (applicableTools sampleSys sampleFile sampleOpts)
   \<and> IsToolAvailable sampleSys (Binary (applicableTools sampleSys sampleFile sampleOpts ! 1))
   \<and> BuildCmd (applicableTools sampleSys sampleFile sampleOpts ! 1) (Path sampleFile)
         (withDefaultTimeout sampleOpts) = Some (exec_Command sampleSys ''exiftool'' [''/tmp/a.png''])
   \<and> CtxDeadlineExceeded
         (CombinedOutput sampleSys 1 (contextCommand sampleSys (exec_Command sampleSys ''exiftool'' [''/tmp/a.png'']))
            (Timeout (withDefaultTimeout sampleOpts)))
   \<and> map_option status (Results (fst (RunAll sampleSys [2, 0, 1] sampleFile sampleOpts)) ! 1)
        = Some StFailed
   \<and> map_option Error (Results (fst (RunAll sampleSys [2, 0, 1] sampleFile sampleOpts)) ! 1)
        = Some (Some ''timeout after 1m0s'')"
proof -
  have i: "1 < length (applicableTools sampleSys sampleFile sampleOpts)"
    by (simp add: sample_applicable)
  have a: "IsToolAvailable sampleSys (Binary (applicableTools sampleSys sampleFile sampleOpts ! 1))"
    unfolding sample_applicable by (simp add: IsToolAvailable_def isCommandAvailable_def sampleSys_def)
  have b: "BuildCmd (applicableTools sampleSys sampleFile sampleOpts ! 1) (Path sampleFile)
             (withDefaultTimeout sampleOpts) = Some (exec_Command sampleSys ''exiftool'' [''/tmp/a.png''])"
    unfolding sample_applicable by (simp add: sampleFile_def)
  have c: "CtxDeadlineExceeded
         (CombinedOutput sampleSys 1 (contextCommand sampleSys (exec_Command sampleSys ''exiftool'' [''/tmp/a.png'']))
            (Timeout (withDefaultTimeout sampleOpts)))"
    by (simp add: sampleSys_def sampleOutcome_def)
  have d: "DurationString sampleSys (Timeout (withDefaultTimeout sampleOpts)) = ''1m0s''"
    by (simp add: sample_timeout sampleSys_def)
  from RunAll_timeout_failure [OF sample_joined i a b c] sample_joined i a b c
  show ?thesis by (auto simp: d)
qed

section \<open>A subprocess that exits with an error\<close>

text \<open>
  C2: when the tool at index \<open>i\<close> is installed, its command builder returns a command,
  the subprocess did not run into its deadline and \<^verbatim>\<open>CombinedOutput\<close> returned an error
  (a non-zero exit), then the result at index \<open>i\<close> after the join is a success carrying
  the trimmed output and no error if the trimmed output is not empty, and a failure
  carrying the error of the process if it is empty.
\<close>

theorem RunAll_nonzero_exit:
  assumes "joined (length (applicableTools sys fileInfo opts)) sched"
    and "i < length (applicableTools sys fileInfo opts)"
    and "IsToolAvailable sys (Binary (applicableTools sys fileInfo opts ! i))"
    and "BuildCmd (applicableTools sys fileInfo opts ! i) (Path fileInfo) (withDefaultTimeout opts)
           = Some cmd"
    and "p = CombinedOutput sys i (contextCommand sys cmd) (Timeout (withDefaultTimeout opts))"
    and "\<not> CtxDeadlineExceeded p" and "PErr p = Some err"
  shows "\<exists>r. Results (fst (RunAll sys sched fileInfo opts)) ! i = Some r
             \<and> (TrimSpace sys (POut p) \<noteq> [] \<longrightarrow>
                  status r = StSuccess \<and> Output r = TrimSpace sys (POut p) \<and> Error r = None)
             \<and> (TrimSpace sys (POut p) = [] \<longrightarrow>
                  status r = StFailed \<and> Error r = Some err \<and> Output r = [])"
  using RunAll_nth [OF assms(1,2)] assms(5,6,7)
  by (simp add: runTool_ran [OF assms(3,4)] Let_def status_def)

theorem RunAll_nonzero_exit_witness:
  "joined (length (applicableTools sampleSys sampleFile sampleOpts)) [2, 0, 1]
   \<and> 0 < length (applicableTools sampleSys sampleFile sampleOpts)
   \<and> IsToolAvailable sampleSys (Binary (applicableTools sampleSys sampleFile sampleOpts ! 0))
   \<and> BuildCmd (applicableTools sampleSys sampleFile sampleOpts ! 0) (Path sampleFile)
         (withDefaultTimeout sampleOpts)
        = Some (exec_Command sampleSys ''file'' [''-b'', ''--mime'', ''/tmp/a.png''])
   \<and> \<not> CtxDeadlineExceeded
         (CombinedOutput sampleSys 0
            (contextCommand sampleSys (exec_Command sampleSys ''file'' [''-b'', ''--mime'', ''/tmp/a.png'']))
            (Timeout (withDefaultTimeout sampleOpts)))
   \<and> PErr (CombinedOutput sampleSys 0
            (contextCommand sampleSys (exec_Command sampleSys ''file'' [''-b'', ''--mime'', ''/tmp/a.png'']))
            (Timeout (withDefaultTimeout sampleOpts))) = Some ''exit status 1''
   \<and> map_option status (Results (fst (RunAll sampleSys [2, 0, 1] sampleFile sampleOpts)) ! 0)
        = Some StSuccess
   \<and> map_option Output (Results (fst (RunAll sampleSys [2, 0, 1] sampleFile sampleOpts)) ! 0)
        = Some ''image/png; charset=binary''
   \<and> joined (length (applicableTools sampleSys sampleFile exifOnly)) [0]
   \<and> PErr (CombinedOutput sampleSys 0
            (contextCommand sampleSys (exec_Command sampleSys ''exiftool'' [''/tmp/a.png'']))
            (Timeout (withDefaultTimeout exifOnly))) = Some ''exit status 2''
   \<and> map_option status (Results (fst (RunAll sampleSys [0] sampleFile exifOnly)) ! 0)
        = Some StFailed
   \<and> map_option Error (Results (fst (RunAll sampleSys [0] sampleFile exifOnly)) ! 0)
        = Some (Some ''exit status 2'')"
proof -
  let ?file = "exec_Command sampleSys ''file'' [''-b'', ''--mime'', ''/tmp/a.png'']"
  let ?p = "CombinedOutput sampleSys 0 (contextCommand sampleSys ?file) (Timeout (withDefaultTimeout sampleOpts))"
  have i: "0 < length (applicableTools sampleSys sampleFile sampleOpts)"
    by (simp add: sample_applicable)
  have a: "IsToolAvailable sampleSys (Binary (applicableTools sampleSys sampleFile sampleOpts ! 0))"
    unfolding sample_applicable
    by (simp add: IsToolAvailable_def isCommandAvailable_def sampleSys_def)
  have b: "BuildCmd (applicableTools sampleSys sampleFile sampleOpts ! 0) (Path sampleFile)
             (withDefaultTimeout sampleOpts) = Some ?file"
    unfolding sample_applicable by (simp add: sampleFile_def)
  have p: "?p = \<lparr>POut = '' image/png; charset=binary'' @ [CHR 0x0A], PErr = Some ''exit status 1'',
                  CtxDeadlineExceeded = False, Elapsed = 5000000, Spawned = True\<rparr>"
    unfolding sample_file_command by (simp add: sample_timeout sampleSys_def sampleOutcome_def)
  have c: "\<not> CtxDeadlineExceeded ?p" and e: "PErr ?p = Some ''exit status 1''"
    by (simp_all add: p)
  have t: "TrimSpace sampleSys (POut ?p) = ''image/png; charset=binary''"
    unfolding p by (simp add: sampleSys_def trimASCII_def isSpaceChar_def)
  from RunAll_nonzero_exit [OF sample_joined i a b refl c e]
  have first:
    "map_option status (Results (fst (RunAll sampleSys [2, 0, 1] sampleFile sampleOpts)) ! 0)
        = Some StSuccess"
    "map_option Output (Results (fst (RunAll sampleSys [2, 0, 1] sampleFile sampleOpts)) ! 0)
        = Some ''image/png; charset=binary''"
    by (auto simp: t)
  let ?exif = "exec_Command sampleSys ''exiftool'' [''/tmp/a.png'']"
  let ?q = "CombinedOutput sampleSys 0 (contextCommand sampleSys ?exif) (Timeout (withDefaultTimeout exifOnly))"
  have j': "joined (length (applicableTools sampleSys sampleFile exifOnly)) [0]"
    by (simp add: exif_applicable joined_def)
  have i': "0 < length (applicableTools sampleSys sampleFile exifOnly)"
    by (simp add: exif_applicable)
  have a': "IsToolAvailable sampleSys (Binary (applicableTools sampleSys sampleFile exifOnly ! 0))"
    unfolding exif_applicable
    by (simp add: IsToolAvailable_def isCommandAvailable_def sampleSys_def)
  have b': "BuildCmd (applicableTools sampleSys sampleFile exifOnly ! 0) (Path sampleFile)
             (withDefaultTimeout exifOnly) = Some ?exif"
    unfolding exif_applicable by (simp add: sampleFile_def)
  have q: "?q = \<lparr>POut = [CHR 0x0A, CHR '' ''], PErr = Some ''exit status 2'',
                  CtxDeadlineExceeded = False, Elapsed = 7000000, Spawned = True\<rparr>"
    by (simp add: exif_timeout sampleSys_def sampleOutcome_def contextCommand_def exec_Command_def
          Let_def)
  have c': "\<not> CtxDeadlineExceeded ?q" and e': "PErr ?q = Some ''exit status 2''"
    by (simp_all add: q)
  have t': "TrimSpace sampleSys (POut ?q) = []"
    unfolding q by (simp add: sampleSys_def trimASCII_def isSpaceChar_def)
  from RunAll_nonzero_exit [OF j' i' a' b' refl c' e']
  have second:
    "map_option status (Results (fst (RunAll sampleSys [0] sampleFile exifOnly)) ! 0)
        = Some StFailed"
    "map_option Error (Results (fst (RunAll sampleSys [0] sampleFile exifOnly)) ! 0)
        = Some (Some ''exit status 2'')"
    by (auto simp: t')
  from sample_joined i a b c e first j' e' second show ?thesis
    by simp
qed

section \<open>The default deadline\<close>

text \<open>
  C3, as \<open>RunAll\<close> computes it: when the timeout of the options is zero (unset), \<open>RunAll\<close>
  does what it does for a timeout of 60 seconds, results and events alike, and every
  process it starts is under a deadline of 60 seconds. The test is
  \<^verbatim>\<open>opts.Timeout == 0\<close>, so a negative timeout is not replaced.
\<close>

theorem RunAll_default_deadline:
  assumes "Timeout opts = 0"
  shows "RunAll sys sched fileInfo opts = RunAll sys sched fileInfo (opts\<lparr>Timeout := 60 * Second\<rparr>)
         \<and> (\<forall>i cmd d. Started i cmd d \<in> set (snd (RunAll sys sched fileInfo opts))
                \<longrightarrow> d = 60 * Second)"
proof -
  from assms have w: "withDefaultTimeout opts = opts\<lparr>Timeout := 60 * Second\<rparr>"
    by (simp add: withDefaultTimeout_def)
  have w': "withDefaultTimeout (opts\<lparr>Timeout := 60 * Second\<rparr>) = opts\<lparr>Timeout := 60 * Second\<rparr>"
    by (simp add: withDefaultTimeout_def Second_def)
  have "RunAll sys sched fileInfo opts = RunAll sys sched fileInfo (opts\<lparr>Timeout := 60 * Second\<rparr>)"
    by (simp add: RunAll_def w w')
  moreover have "d = 60 * Second"
    if "Started i cmd d \<in> set (snd (RunAll sys sched fileInfo opts))" for i cmd d
    using RunAll_started_deadline [OF that] w by simp
  ultimately show ?thesis by blast
qed

theorem RunAll_default_deadline_witness:
  "Timeout sampleOpts = 0
   \<and> RunAll sampleSys [2, 0, 1] sampleFile sampleOpts
       = RunAll sampleSys [2, 0, 1] sampleFile (sampleOpts\<lparr>Timeout := 60 * Second\<rparr>)
   \<and> Started 0
        (contextCommand sampleSys (exec_Command sampleSys ''file'' [''-b'', ''--mime'', ''/tmp/a.png'']))
        60000000000 \<in> set (snd (RunAll sampleSys [2, 0, 1] sampleFile sampleOpts))
   \<and> (60000000000 :: int) = 60 * Second"
proof -
  have z: "Timeout sampleOpts = 0" by (simp add: sampleOpts_def)
  from RunAll_default_deadline [OF z, of sampleSys "[2, 0, 1]" sampleFile]
  have "RunAll sampleSys [2, 0, 1] sampleFile sampleOpts
          = RunAll sampleSys [2, 0, 1] sampleFile (sampleOpts\<lparr>Timeout := 60 * Second\<rparr>)"
    by (rule conjunct1)
  with z sample_started show ?thesis by (simp add: Second_def)
qed

text \<open>
  With a timeout of \<open>- 1\<close> nanosecond the tools are not run under 60 seconds: in the
  sample world \<open>file\<close>, which under 60 seconds runs for 5 milliseconds and is recorded as
  successful, has a context that is done from the start and is recorded as failed with
  \<open>timeout after -1ns\<close>.
\<close>

theorem RunAll_negative_timeout_counterexample:
  "Timeout negativeOpts = - 1
   \<and> map_option status (Results (fst (RunAll sampleSys [2, 0, 1] sampleFile negativeOpts)) ! 0)
       = Some StFailed
   \<and> map_option Error (Results (fst (RunAll sampleSys [2, 0, 1] sampleFile negativeOpts)) ! 0)
       = Some (Some ''timeout after -1ns'')
   \<and> map_option status
         (Results (fst (RunAll sampleSys [2, 0, 1] sampleFile
                          (negativeOpts\<lparr>Timeout := 60 * Second\<rparr>))) ! 0)
       = Some StSuccess
   \<and> map_option Output
         (Results (fst (RunAll sampleSys [2, 0, 1] sampleFile
                          (negativeOpts\<lparr>Timeout := 60 * Second\<rparr>))) ! 0)
       = Some ''image/png; charset=binary''
   \<and> RunAll sampleSys [2, 0, 1] sampleFile negativeOpts
       \<noteq> RunAll sampleSys [2, 0, 1] sampleFile (negativeOpts\<lparr>Timeout := 60 * Second\<rparr>)"
proof -
  let ?file = "exec_Command sampleSys ''file'' [''-b'', ''--mime'', ''/tmp/a.png'']"
  let ?tool = "\<lparr>Name = ''file'', Binary = ''file'', Category = ''general'',
              SupportedTypes = allTypes,
              BuildCmd = (\<lambda>fp opts. Some (exec_Command sampleSys ''file'' [''-b'', ''--mime'', fp]))\<rparr>"
  let ?sixty = "negativeOpts\<lparr>Timeout := 60 * Second\<rparr>"
  have t: "Timeout negativeOpts = - 1"
    by (simp add: negativeOpts_def)
  have a: "IsToolAvailable sampleSys (Binary ?tool)"
    by (simp add: sample_file_available)
  have b: "BuildCmd ?tool (Path sampleFile) opts = Some ?file" for opts
    by (simp add: sampleFile_def)
  have neg: "withDefaultTimeout negativeOpts = negativeOpts"
    by (simp add: withDefaultTimeout_def negativeOpts_def)
  have pos: "withDefaultTimeout ?sixty = ?sixty"
    by (simp add: withDefaultTimeout_def Second_def)
  have r1: "Results (fst (RunAll sampleSys [2, 0, 1] sampleFile negativeOpts)) ! 0
       = Some \<lparr>ToolName = ''file'', RCategory = ''general'', Output = [],
               Error = Some ''timeout after -1ns'', Duration = 1000, Skipped = False,
               SkipReason = []\<rparr>"
  proof -
    have "Results (fst (RunAll sampleSys [2, 0, 1] sampleFile negativeOpts)) ! 0
            = Some (fst (runTool sampleSys sampleFile (withDefaultTimeout negativeOpts) 0 ?tool))"
      by (rule sample_file_result) (simp_all add: negativeOpts_def)
    moreover have "fst (runTool sampleSys sampleFile negativeOpts 0 ?tool)
            = \<lparr>ToolName = ''file'', RCategory = ''general'', Output = [],
               Error = Some ''timeout after -1ns'', Duration = 1000, Skipped = False,
               SkipReason = []\<rparr>"
      unfolding runTool_ran [OF a b] sample_file_command
      by (simp add: t sampleSys_def sampleOutcome_def Let_def)
    ultimately show ?thesis by (simp add: neg)
  qed
  have r2: "Results (fst (RunAll sampleSys [2, 0, 1] sampleFile ?sixty)) ! 0
       = Some \<lparr>ToolName = ''file'', RCategory = ''general'',
               Output = ''image/png; charset=binary'', Error = None, Duration = 5000000,
               Skipped = False, SkipReason = []\<rparr>"
  proof -
    have "Results (fst (RunAll sampleSys [2, 0, 1] sampleFile ?sixty)) ! 0
            = Some (fst (runTool sampleSys sampleFile (withDefaultTimeout ?sixty) 0 ?tool))"
      by (rule sample_file_result) (simp_all add: negativeOpts_def)
    moreover have "fst (runTool sampleSys sampleFile ?sixty 0 ?tool)
            = \<lparr>ToolName = ''file'', RCategory = ''general'',
               Output = ''image/png; charset=binary'', Error = None, Duration = 5000000,
               Skipped = False, SkipReason = []\<rparr>"
      unfolding runTool_ran [OF a b] sample_file_command
      by (simp add: Second_def sampleSys_def sampleOutcome_def trimASCII_def isSpaceChar_def Let_def)
    ultimately show ?thesis by (simp add: pos)
  qed
  from r1 r2 have "RunAll sampleSys [2, 0, 1] sampleFile negativeOpts
       \<noteq> RunAll sampleSys [2, 0, 1] sampleFile ?sixty"
    by auto
  with t show ?thesis
    unfolding r1 r2 by (simp add: status_def)
qed

section \<open>The timeout flag of the scan command\<close>

text \<open>
  C4: for every positive value of the flag \<^verbatim>\<open>--timeout\<close>, the options that the scan
  command hands to \<open>RunAll\<close> have the timeout zero, the zero value of \<open>RunOpts\<close>; \<open>RunAll\<close>
  replaces it by 60 seconds, every subprocess it starts is bounded by 60 seconds, and any
  other positive value of the flag gives the same options, so the number of seconds has
  no influence on any deadline.
\<close>

theorem scan_timeout_flag_ignored:
  assumes "0 < timeout fl"
  shows "Timeout (scanOpts fl) = 0
         \<and> Timeout (withDefaultTimeout (scanOpts fl)) = 60 * Second
         \<and> (\<forall>i cmd d. Started i cmd d \<in> set (snd (RunAll sys sched fileInfo (scanOpts fl)))
                \<longrightarrow> d = 60 * Second)
         \<and> (\<forall>n. 0 < n \<longrightarrow> scanOpts (fl\<lparr>timeout := n\<rparr>) = scanOpts fl)"
proof -
  from assms have z: "Timeout (scanOpts fl) = 0"
    by (simp add: scanOpts_def zeroRunOpts_def Let_def)
  then have d: "Timeout (withDefaultTimeout (scanOpts fl)) = 60 * Second"
    by (simp add: withDefaultTimeout_def)
  have "d' = 60 * Second"
    if "Started i cmd d' \<in> set (snd (RunAll sys sched fileInfo (scanOpts fl)))" for i cmd d'
    using RunAll_started_deadline [OF that] d by simp
  moreover have "scanOpts (fl\<lparr>timeout := n\<rparr>) = scanOpts fl" if "0 < n" for n
    using that assms by (simp add: scanOpts_def Let_def)
  ultimately show ?thesis using z d by blast
qed

theorem scan_timeout_flag_ignored_witness:
  "0 < timeout sampleFlags
   \<and> Timeout (scanOpts sampleFlags) = 0
   \<and> Started 0 (contextCommand sampleSys (exec_Command sampleSys ''file'' [''-b'', ''--mime'', ''/tmp/a.png'']))
        60000000000 \<in> set (snd (RunAll sampleSys [2, 0, 1] sampleFile (scanOpts sampleFlags)))
   \<and> (60000000000 :: int) = 60 * Second
   \<and> scanOpts (sampleFlags\<lparr>timeout := 300\<rparr>) = scanOpts sampleFlags"
proof -
  have p: "0 < timeout sampleFlags" by (simp add: sampleFlags_def)
  have o: "scanOpts sampleFlags = sampleOpts"
    by (simp add: scanOpts_def sampleFlags_def sampleOpts_def zeroRunOpts_def Let_def)
  have s: "Started 0 (contextCommand sampleSys (exec_Command sampleSys ''file'' [''-b'', ''--mime'', ''/tmp/a.png'']))
        60000000000 \<in> set (snd (RunAll sampleSys [2, 0, 1] sampleFile (scanOpts sampleFlags)))"
    unfolding o by (rule sample_started)
  note th = scan_timeout_flag_ignored [OF p, of sampleSys "[2, 0, 1]" sampleFile]
  from th have "Timeout (scanOpts sampleFlags) = 0" by simp
  moreover from th have "scanOpts (sampleFlags\<lparr>timeout := 300\<rparr>) = scanOpts sampleFlags"
    by simp
  ultimately show ?thesis using p s by (simp add: Second_def)
qed

end
